theory Spec2Isabelle
  imports Complex_Main
begin

section \<open>Emotional prosody transfer: the data model\<close>

text \<open>
  The script \<^verbatim>\<open>emotional_prosody_transfer.py\<close> glues three libraries together:
  librosa (loading), pyworld (analysis and synthesis) and matplotlib (plotting).
  Exceptions are values. The code never inspects an exception, so a few kinds are
  enough: \<^verbatim>\<open>IOError\<close> (Python's \<^verbatim>\<open>OSError\<close>, a missing or unreadable file among them),
  the \<^verbatim>\<open>ValueError\<close> that the script, numpy and librosa raise, the two errors with which
  librosa gives up on a file it cannot decode (audioread's \<^verbatim>\<open>NoBackendError\<close> and
  \<^verbatim>\<open>EOFError\<close>, neither of them an \<^verbatim>\<open>OSError\<close>), and the opaque failures of the vocoder.
\<close>

datatype error =
    IOError string
  | ValueError string
  | NoBackendError
  | EOFError
  | VocoderError string


subsection \<open>numpy's resize on a one-dimensional array\<close>

text \<open>
  \<^verbatim>\<open>np.resize(a, new_shape)\<close> for a flat array and an integer shape:
  \<^verbatim>\<open>
    if new_shape < 0: raise ValueError(...)
    if a.size == 0 or new_size == 0:
        return np.zeros_like(a, shape=new_shape)
    repeats = -(-new_size // a.size)
    a = concatenate((a,) * repeats)[:new_size]
  \<close>
  Python's \<^verbatim>\<open>//\<close> on integers is floor division, as \<open>div\<close> on \<open>int\<close> is.
  The elements are only copied, never computed with, so the element type is any
  type with a zero.
\<close>

definition np_resize :: "'a::zero list \<Rightarrow> int \<Rightarrow> error + 'a list" where
  "np_resize a new_shape =
     (if new_shape < 0 then Inl (ValueError ''all elements of `new_shape` must be non-negative'')
      else if length a = 0 \<or> new_shape = 0 then Inr (replicate (nat new_shape) 0)
      else let repeats = - ((- new_shape) div int (length a))
           in Inr (take (nat new_shape) (concat (replicate (nat repeats) a))))"

subsection \<open>Prosody transfer\<close>

text \<open>
  The pitch contour is a one-dimensional array; the spectral envelope is a
  two-dimensional array, one row per frame, so \<^verbatim>\<open>sp_target.shape[0]\<close> is its number
  of rows. The aperiodicity is only passed through.
\<close>

definition transfer_prosody ::
  "'a::zero list \<Rightarrow> 'b list \<Rightarrow> 'c \<Rightarrow> error + ('a list \<times> 'b list \<times> 'c)" where
  "transfer_prosody f0_source sp_target ap_target =
     (let num_frames_target = int (length sp_target)
      in case np_resize f0_source num_frames_target of
           Inl e \<Rightarrow> Inl e
         | Inr f0_aligned \<Rightarrow> Inr (f0_aligned, sp_target, ap_target))"

section \<open>The pipeline and its collaborators\<close>

subsection \<open>Arrays, the libraries and the observable world\<close>

text \<open>
  A waveform is a numpy array: an element type, a shape and the samples. Converting
  \<^verbatim>\<open>float32\<close> to \<^verbatim>\<open>float64\<close> is exact, so \<^verbatim>\<open>astype\<close> changes the tag only;
  sample values are reals, and no property below depends on rounding.
\<close>

datatype dtype = Float32 | Float64

record ndarray =
  dtype :: dtype
  shape :: "nat list"
  samples :: "real list"

definition astype :: "ndarray \<Rightarrow> dtype \<Rightarrow> ndarray" where
  "astype y dt = y\<lparr>dtype := dt\<rparr>"

text \<open>
  The library functions the script calls are parameters. Each returns its result or
  the exception it raised. \<^verbatim>\<open>librosa.load(path, sr=, mono=)\<close>, the four pyworld
  analysis steps, \<^verbatim>\<open>pw.synthesize\<close>, \<^verbatim>\<open>sf.write\<close> and \<^verbatim>\<open>plt.savefig\<close>.
\<close>

record libs =
  librosa_load :: "string \<Rightarrow> nat option \<Rightarrow> bool \<Rightarrow> error + (ndarray \<times> nat)"
  pw_dio :: "ndarray \<Rightarrow> nat \<Rightarrow> real \<Rightarrow> error + (real list \<times> real list)"
  pw_stonemask :: "ndarray \<Rightarrow> real list \<Rightarrow> real list \<Rightarrow> nat \<Rightarrow> error + real list"
  pw_cheaptrick :: "ndarray \<Rightarrow> real list \<Rightarrow> real list \<Rightarrow> nat \<Rightarrow> error + real list list"
  pw_d4c :: "ndarray \<Rightarrow> real list \<Rightarrow> real list \<Rightarrow> nat \<Rightarrow> error + real list list"
  pw_synthesize ::
    "real list \<Rightarrow> real list list \<Rightarrow> real list list \<Rightarrow> nat \<Rightarrow> real \<Rightarrow> error + real list"
  sf_write :: "string \<Rightarrow> real list \<Rightarrow> nat \<Rightarrow> error + unit"
  plt_savefig :: "string \<Rightarrow> error + unit"

text \<open>
  What a run does is recorded in a trace: every library call with the arguments that
  matter, every line printed, and every \<^verbatim>\<open>raise\<close> statement of the script itself.
\<close>

datatype event =
    Print string
  | LibrosaLoad string "nat option" bool
  | PwDio nat real
  | PwStonemask nat
  | PwCheaptrick nat
  | PwD4c nat
  | PwSynthesize "real list" nat real
  | SfWrite string "real list" nat
  | PltFigure nat nat
  | PltPlot "real list" "real option list" string
  | PltTitle string
  | PltXlabel string
  | PltYlabel string
  | PltLegend
  | PltGrid bool
  | PltSavefig string
  | PltClose
  | Raise error

text \<open>
  The world is the trace and a store of arrays: an array handed to the plotter is
  handed by reference, so the store is where a mutation by the callee would show.
\<close>

record world =
  trace :: "event list"
  heap :: "nat \<Rightarrow> real list"
  next_ref :: nat

type_synonym 'a io = "world \<Rightarrow> (error + 'a) \<times> world"

definition io_return :: "'a \<Rightarrow> 'a io" where
  "io_return v = (\<lambda>w. (Inr v, w))"

definition io_bind :: "'a io \<Rightarrow> ('a \<Rightarrow> 'b io) \<Rightarrow> 'b io" where
  "io_bind m f = (\<lambda>w. case m w of (Inl e, w') \<Rightarrow> (Inl e, w') | (Inr v, w') \<Rightarrow> f v w')"

definition io_lift :: "error + 'a \<Rightarrow> 'a io" where
  "io_lift r = (\<lambda>w. (r, w))"

definition io_emit :: "event \<Rightarrow> unit io" where
  "io_emit ev = (\<lambda>w. (Inr (), w\<lparr>trace := trace w @ [ev]\<rparr>))"

definition io_call :: "event \<Rightarrow> error + 'a \<Rightarrow> 'a io" where
  "io_call ev r = io_bind (io_emit ev) (\<lambda>_. io_lift r)"

definition io_raise :: "error \<Rightarrow> 'a io" where
  "io_raise e = (\<lambda>w. (Inl e, w\<lparr>trace := trace w @ [Raise e]\<rparr>))"

definition io_new :: "real list \<Rightarrow> nat io" where
  "io_new xs = (\<lambda>w. (Inr (next_ref w),
                      w\<lparr>heap := (heap w)(next_ref w := xs), next_ref := Suc (next_ref w)\<rparr>))"

definition io_read :: "nat \<Rightarrow> (real list) io" where
  "io_read r = (\<lambda>w. (Inr (heap w r), w))"

definition new_events :: "'a io \<Rightarrow> world \<Rightarrow> event list" where
  "new_events m w = drop (length (trace w)) (trace (snd (m w)))"

fun audio_writes :: "event list \<Rightarrow> (string \<times> real list \<times> nat) list" where
  "audio_writes [] = []"
| "audio_writes (SfWrite path y sr # evs) = (path, y, sr) # audio_writes evs"
| "audio_writes (ev # evs) = audio_writes evs"

subsection \<open>The functions of the script\<close>

definition default_target_sr :: nat where
  "default_target_sr = 22050"

definition load_and_preprocess_audio :: "libs \<Rightarrow> string \<Rightarrow> nat \<Rightarrow> (ndarray \<times> nat) io" where
  "load_and_preprocess_audio L file_path target_sr =
     io_bind (io_call (LibrosaLoad file_path (Some target_sr) True)
                (librosa_load L file_path (Some target_sr) True))
       (\<lambda>(y, sr). io_return (astype y Float64, sr))"

definition analyze_speech ::
  "libs \<Rightarrow> ndarray \<Rightarrow> nat \<Rightarrow> real \<Rightarrow> (real list \<times> real list list \<times> real list list) io" where
  "analyze_speech L y sr frame_period =
     io_bind (io_call (PwDio sr frame_period) (pw_dio L y sr frame_period)) (\<lambda>(f0, t).
     io_bind (io_call (PwStonemask sr) (pw_stonemask L y f0 t sr)) (\<lambda>f0.
     io_bind (io_call (PwCheaptrick sr) (pw_cheaptrick L y f0 t sr)) (\<lambda>sp.
     io_bind (io_call (PwD4c sr) (pw_d4c L y f0 t sr)) (\<lambda>ap.
     io_return (f0, sp, ap)))))"

definition synthesize_speech ::
  "libs \<Rightarrow> real list \<Rightarrow> real list list \<Rightarrow> real list list \<Rightarrow> nat \<Rightarrow> real \<Rightarrow> (real list) io" where
  "synthesize_speech L f0 sp ap sr frame_period =
     io_bind (io_call (PwSynthesize f0 sr frame_period) (pw_synthesize L f0 sp ap sr frame_period))
       (\<lambda>y_synthesized. io_return y_synthesized)"

text \<open>
  \<^verbatim>\<open>np.arange(len(f0)) * frame_period / 1000.0\<close> and
  \<^verbatim>\<open>np.ma.masked_where(f0 == 0, f0)\<close>; the latter copies its argument
  (\<^verbatim>\<open>copy=True\<close> is numpy's default), so both are fresh values.
\<close>

definition time_axis :: "nat \<Rightarrow> real \<Rightarrow> real list" where
  "time_axis n frame_period = map (\<lambda>i. real i * frame_period / 1000) [0..<n]"

definition masked_where_zero :: "real list \<Rightarrow> real option list" where
  "masked_where_zero f0 = map (\<lambda>x. if x = 0 then None else Some x) f0"

text \<open>
  The three contours are references into the store. Colours, line styles and widths of
  the plot calls are left out of the events.
\<close>

definition plot_f0_contours ::
  "libs \<Rightarrow> nat \<Rightarrow> nat \<Rightarrow> nat \<Rightarrow> nat \<Rightarrow> real \<Rightarrow> string \<Rightarrow> unit io" where
  "plot_f0_contours L f0_emo f0_neu f0_conv sr frame_period save_path =
     io_bind (io_emit (PltFigure 12 6)) (\<lambda>_.
     io_bind (io_read f0_emo) (\<lambda>emo.
     io_bind (io_read f0_neu) (\<lambda>neu.
     io_bind (io_read f0_conv) (\<lambda>conv.
     let time_axis_emo = time_axis (length emo) frame_period;
         time_axis_neu = time_axis (length neu) frame_period;
         time_axis_conv = time_axis (length conv) frame_period
     in
     io_bind (io_emit (PltPlot time_axis_neu (masked_where_zero neu) ''Original Neutral F0'')) (\<lambda>_.
     io_bind (io_emit (PltPlot time_axis_emo (masked_where_zero emo) ''Original Emotional F0'')) (\<lambda>_.
     io_bind (io_emit (PltPlot time_axis_conv (masked_where_zero conv) ''Converted F0'')) (\<lambda>_.
     io_bind (io_emit (PltTitle ''Fundamental Frequency ($F_0$) Contour Comparison'')) (\<lambda>_.
     io_bind (io_emit (PltXlabel ''Time (s)'')) (\<lambda>_.
     io_bind (io_emit (PltYlabel ''Frequency (Hz)'')) (\<lambda>_.
     io_bind (io_emit PltLegend) (\<lambda>_.
     io_bind (io_emit (PltGrid True)) (\<lambda>_.
     io_bind (io_call (PltSavefig save_path) (plt_savefig L save_path)) (\<lambda>_.
     io_bind (io_emit PltClose) (\<lambda>_.
     io_emit (Print (''F0 plot saved to '' @ save_path))))))))))))))))"

definition rate_error :: error where
  "rate_error = ValueError ''Sampling rates of the two files must be the same.''"

text \<open>
  The file defines \<^verbatim>\<open>main\<close> twice with the same body; the second definition is the one
  that runs. \<^verbatim>\<open>if plot_file:\<close> is Python's truth test, false for \<^verbatim>\<open>None\<close> and for the
  empty string. At the call of the plotter its three arguments are placed in the store
  and passed by reference.
\<close>

definition main :: "libs \<Rightarrow> string \<Rightarrow> string \<Rightarrow> string \<Rightarrow> string option \<Rightarrow> unit io" where
  "main L emotional_file neutral_file output_file plot_file =
     io_bind (io_emit (Print ''Loading and preprocessing audio files...'')) (\<lambda>_.
     io_bind (load_and_preprocess_audio L emotional_file default_target_sr) (\<lambda>(y_emo, sr_emo).
     io_bind (load_and_preprocess_audio L neutral_file default_target_sr) (\<lambda>(y_neu, sr_neu).
     if sr_emo \<noteq> sr_neu then io_raise rate_error
     else
     let sr = sr_emo; frame_period = 5 in
     io_bind (io_emit (Print ''Analyzing speech signals using WORLD vocoder...'')) (\<lambda>_.
     io_bind (analyze_speech L y_emo sr frame_period) (\<lambda>(f0_emo, sp_emo, ap_emo).
     io_bind (analyze_speech L y_neu sr frame_period) (\<lambda>(f0_neu, sp_neu, ap_neu).
     io_bind (io_emit (Print ''Transferring prosody...'')) (\<lambda>_.
     io_bind (io_lift (transfer_prosody f0_emo sp_neu ap_neu)) (\<lambda>(f0_conv, sp_conv, ap_conv).
     io_bind (io_emit (Print ''Synthesizing converted speech...'')) (\<lambda>_.
     io_bind (synthesize_speech L f0_conv sp_conv ap_conv sr frame_period) (\<lambda>y_conv.
     io_bind (io_emit (Print (''Saving converted audio to '' @ output_file @ ''...''))) (\<lambda>_.
     io_bind (io_call (SfWrite output_file y_conv sr) (sf_write L output_file y_conv sr)) (\<lambda>_.
     io_bind (case plot_file of
                None \<Rightarrow> io_return ()
              | Some path \<Rightarrow>
                  if path = [] then io_return ()
                  else
                   io_bind (io_emit (Print ''Generating F0 contour plot for validation...'')) (\<lambda>_.
                   io_bind (io_new f0_emo) (\<lambda>r_emo.
                   io_bind (io_new f0_neu) (\<lambda>r_neu.
                   io_bind (io_new f0_conv) (\<lambda>r_conv.
                   plot_f0_contours L r_emo r_neu r_conv sr frame_period path))))) (\<lambda>_.
     io_emit (Print ''Process completed successfully.''))))))))))))))"

subsection \<open>What the script relies on from librosa\<close>

text \<open>
  \<^verbatim>\<open>librosa.load\<close> with a sample rate given resamples to it and returns that rate;
  with \<^verbatim>\<open>mono=True\<close> it returns a one-dimensional array. Nothing is assumed about how
  it fails: a missing file, a file that cannot be decoded and a sample rate it refuses
  raise errors of different kinds.
\<close>

definition librosa_rate_contract :: "libs \<Rightarrow> bool" where
  "librosa_rate_contract L \<longleftrightarrow>
     (\<forall>path sr mono y r. librosa_load L path (Some sr) mono = Inr (y, r) \<longrightarrow> r = sr)"


subsection \<open>Vocabulary for the properties\<close>

text \<open>
  The two sample rates that the loader reports for the two input files differ.
\<close>

definition rates_differ :: "libs \<Rightarrow> string \<Rightarrow> string \<Rightarrow> bool" where
  "rates_differ L emotional_file neutral_file =
     (case librosa_load L emotional_file (Some default_target_sr) True of
        Inl e \<Rightarrow> False
      | Inr (y_emo, sr_emo) \<Rightarrow>
          (case librosa_load L neutral_file (Some default_target_sr) True of
             Inl e \<Rightarrow> False
           | Inr (y_neu, sr_neu) \<Rightarrow> sr_emo \<noteq> sr_neu))"

text \<open>
  An event uses the fixed parameters when a load asks for 22050 Hz, and an analysis,
  a synthesis or the time axis of a plotted line uses a frame period of 5 ms.
\<close>

fun fixed_parameters :: "event \<Rightarrow> bool" where
  "fixed_parameters (LibrosaLoad path sr mono_flag) = (sr = Some 22050)"
| "fixed_parameters (PwDio sr frame_period) = (frame_period = 5)"
| "fixed_parameters (PwSynthesize f0 sr frame_period) = (frame_period = 5)"
| "fixed_parameters (PltPlot xs ys label) = (xs = time_axis (length ys) 5)"
| "fixed_parameters ev = True"

fun is_audio_write :: "event \<Rightarrow> bool" where
  "is_audio_write (SfWrite path y sr) = True"
| "is_audio_write ev = False"

text \<open>
  Two judgements about a computation: every event it adds to the trace satisfies \<open>P\<close>
  and every value it returns satisfies \<open>Q\<close>; and it leaves the store of arrays as it
  found it.
\<close>

definition emits :: "'a io \<Rightarrow> (event \<Rightarrow> bool) \<Rightarrow> ('a \<Rightarrow> bool) \<Rightarrow> bool" where
  "emits m P Q \<longleftrightarrow>
     (\<forall>w. (\<exists>evs. trace (snd (m w)) = trace w @ evs \<and> list_all P evs) \<and>
          (\<forall>v. fst (m w) = Inr v \<longrightarrow> Q v))"

definition keeps_heap :: "'a io \<Rightarrow> bool" where
  "keeps_heap m \<longleftrightarrow> (\<forall>w. heap (snd (m w)) = heap w)"

subsection \<open>Sample collaborators\<close>

text \<open>
  Small stand-ins for the libraries, for running the pipeline on concrete inputs. The
  first loader behaves as librosa does: it returns the rate it was asked for, and fails
  on a missing file. The second reports a rate of its own for one of the files. The
  third fails as librosa does on a corrupt and on an empty file.
\<close>

definition init_world :: world where
  "init_world = \<lparr>trace = [], heap = (\<lambda>_. []), next_ref = 0\<rparr>"

definition sample_wave :: ndarray where
  "sample_wave = \<lparr>dtype = Float32, shape = [4], samples = [0, 1 / 2, 0, - 1 / 2]\<rparr>"

definition sample_libs :: libs where
  "sample_libs =
     \<lparr>librosa_load = (\<lambda>path sr mono.
        if path = ''missing.wav'' then Inl (IOError ''No such file or directory'')
        else Inr (sample_wave, case sr of None \<Rightarrow> 44100 | Some r \<Rightarrow> r)),
      pw_dio = (\<lambda>y sr frame_period. Inr ([110, 0, 120], [0, 5 / 1000, 10 / 1000])),
      pw_stonemask = (\<lambda>y f0 t sr. Inr f0),
      pw_cheaptrick = (\<lambda>y f0 t sr. Inr (map (\<lambda>x. [1, 1]) f0)),
      pw_d4c = (\<lambda>y f0 t sr. Inr (map (\<lambda>x. [0, 0]) f0)),
      pw_synthesize = (\<lambda>f0 sp ap sr frame_period. Inr (map (\<lambda>x. x / 1000) f0)),
      sf_write = (\<lambda>path y sr. Inr ()),
      plt_savefig = (\<lambda>path. Inr ())\<rparr>"

definition native_rate_libs :: libs where
  "native_rate_libs =
     sample_libs\<lparr>librosa_load := (\<lambda>path sr mono.
        Inr (sample_wave, if path = ''emotion.wav'' then 16000 else 22050))\<rparr>"


section \<open>Properties of the length alignment\<close>

lemma nth_concat_replicate:
  "i < k * length xs \<Longrightarrow> concat (replicate k xs) ! i = xs ! (i mod length xs)"
proof (induction k arbitrary: i)
  case 0
  then show ?case by simp
next
  case (Suc k)
  show ?case
  proof (cases "i < length xs")
    case True
    then show ?thesis by (simp add: nth_append)
  next
    case False
    then have "i - length xs < k * length xs"
      using Suc.prems by simp
    then have "concat (replicate k xs) ! (i - length xs) = xs ! ((i - length xs) mod length xs)"
      by (rule Suc.IH)
    moreover have "(i - length xs) mod length xs = i mod length xs"
      using False by (simp add: le_mod_geq)
    ultimately show ?thesis
      using False by (simp add: nth_append)
  qed
qed

lemma length_concat_replicate: "length (concat (replicate k xs)) = k * length xs"
  by (induction k) simp_all

lemma ceil_div_covers:
  assumes "0 < l"
  shows "n \<le> nat (- ((- int n) div int l)) * l"
proof -
  define q where "q = (- int n) div int l"
  define r where "r = (- int n) mod int l"
  have pos: "0 < int l" using assms by simp
  have eq: "q * int l + r = - int n"
    unfolding q_def r_def by (rule div_mult_mod_eq)
  have r0: "0 \<le> r"
    unfolding r_def using pos by (rule pos_mod_sign)
  have le: "int n \<le> (- q) * int l"
    using eq r0 by (simp add: algebra_simps)
  have "q \<le> 0"
  proof (rule ccontr)
    assume "\<not> q \<le> 0"
    then have "1 \<le> q" by simp
    then have "int l \<le> q * int l"
      using pos by simp
    with eq r0 pos show False by linarith
  qed
  then have "int (nat (- q) * l) = (- q) * int l"
    by simp
  with le have "int n \<le> int (nat (- q) * l)"
    by simp
  then show ?thesis
    unfolding q_def by linarith
qed

lemma np_resize_nonempty:
  assumes "xs \<noteq> []"
  shows "np_resize xs (int n) =
           Inr (take n (concat (replicate (nat (- ((- int n) div int (length xs)))) xs)))"
  using assms by (simp add: np_resize_def Let_def)

lemma np_resize_empty: "np_resize [] (int n) = Inr (replicate n 0)"
  by (simp add: np_resize_def)

lemma np_resize_length: "np_resize xs (int n) = Inr ys \<Longrightarrow> length ys = n"
proof (cases "xs = []")
  case True
  assume "np_resize xs (int n) = Inr ys"
  with True show ?thesis by (auto simp: np_resize_empty)
next
  case False
  assume r: "np_resize xs (int n) = Inr ys"
  have "n \<le> nat (- ((- int n) div int (length xs))) * length xs"
    using False by (intro ceil_div_covers) simp
  with r False show ?thesis
    by (auto simp: np_resize_nonempty length_concat_replicate)
qed

lemma np_resize_nth:
  assumes "xs \<noteq> []" and "np_resize xs (int n) = Inr ys" and "i < n"
  shows "ys ! i = xs ! (i mod length xs)"
proof -
  let ?k = "nat (- ((- int n) div int (length xs)))"
  have cover: "n \<le> ?k * length xs"
    using assms(1) by (intro ceil_div_covers) simp
  have ys: "ys = take n (concat (replicate ?k xs))"
    using assms(1,2) by (simp add: np_resize_nonempty)
  have "ys ! i = concat (replicate ?k xs) ! i"
    using assms(3) by (simp add: ys)
  also have "\<dots> = xs ! (i mod length xs)"
    using assms(3) cover by (intro nth_concat_replicate) simp
  finally show ?thesis .
qed

lemma np_resize_total: "\<exists>ys. np_resize xs (int n) = Inr ys"
  by (cases "xs = []") (simp_all add: np_resize_empty np_resize_nonempty)

lemma np_resize_dvd:
  assumes "xs \<noteq> []" and "length xs dvd n"
  shows "np_resize xs (int n) = Inr (concat (replicate (n div length xs) xs))"
proof -
  define k where "k = n div length xs"
  have n: "n = length xs * k"
    using assms(2) by (simp add: k_def)
  have l: "0 < int (length xs)"
    using assms(1) by simp
  have neg: "- int n = int (length xs) * (- int k)"
    by (simp add: n)
  have "(int (length xs) * (- int k)) div int (length xs) = - int k"
    using l by (intro nonzero_mult_div_cancel_left) simp
  then have "(- int n) div int (length xs) = - int k"
    by (simp only: neg)
  then have rep: "nat (- ((- int n) div int (length xs))) = k"
    by simp
  have "length (concat (replicate k xs)) = n"
    by (simp add: length_concat_replicate n)
  then have "take n (concat (replicate k xs)) = concat (replicate k xs)"
    by simp
  then have "np_resize xs (int n) = Inr (concat (replicate k xs))"
    by (simp only: np_resize_nonempty [OF assms(1)] rep)
  then show ?thesis
    by (simp only: k_def)
qed

lemma transfer_prosody_Inr:
  "np_resize f0_source (int (length sp_target)) = Inr ys \<Longrightarrow>
   transfer_prosody f0_source sp_target ap_target = Inr (ys, sp_target, ap_target)"
  by (simp add: transfer_prosody_def)

section \<open>Reasoning about traces\<close>

text \<open>
  The rules below follow the structure of a computation: one rule for each primitive and
  one for sequencing, then one lemma for each function of the script.
\<close>

lemma emitsI:
  assumes "\<And>w. \<exists>evs. trace (snd (m w)) = trace w @ evs \<and> list_all P evs"
    and "\<And>w v. fst (m w) = Inr v \<Longrightarrow> Q v"
  shows "emits m P Q"
  using assms unfolding emits_def by blast

lemma emits_return: "Q v \<Longrightarrow> emits (io_return v) P Q"
  by (rule emitsI) (simp_all add: io_return_def)

lemma emits_lift: "(\<And>v. r = Inr v \<Longrightarrow> Q v) \<Longrightarrow> emits (io_lift r) P Q"
  by (rule emitsI) (simp_all add: io_lift_def)

lemma emits_emit: "P ev \<Longrightarrow> Q () \<Longrightarrow> emits (io_emit ev) P Q"
  by (rule emitsI) (simp_all add: io_emit_def)

lemma emits_raise: "P (Raise e) \<Longrightarrow> emits (io_raise e) P Q"
  by (rule emitsI) (simp_all add: io_raise_def)

lemma emits_new: "(\<And>r. Q r) \<Longrightarrow> emits (io_new xs) P Q"
  by (rule emitsI) (simp_all add: io_new_def)

lemma emits_read: "(\<And>xs. Q xs) \<Longrightarrow> emits (io_read r) P Q"
  by (rule emitsI) (simp_all add: io_read_def)

lemma emits_bind:
  assumes m: "emits m P Q" and f: "\<And>v. Q v \<Longrightarrow> emits (f v) P R"
  shows "emits (io_bind m f) P R"
proof (rule emitsI)
  fix w
  obtain r w' where mw: "m w = (r, w')"
    by (cases "m w")
  obtain evs where evs: "trace w' = trace w @ evs" "list_all P evs"
    using m mw unfolding emits_def by (metis snd_conv)
  show "\<exists>evs. trace (snd (io_bind m f w)) = trace w @ evs \<and> list_all P evs"
  proof (cases r)
    case (Inl e)
    then show ?thesis
      using mw evs by (simp add: io_bind_def)
  next
    case (Inr v)
    then have "Q v"
      using m mw unfolding emits_def by (metis fst_conv)
    then have "emits (f v) P R"
      by (rule f)
    then obtain evs' where "trace (snd (f v w')) = trace w' @ evs'" "list_all P evs'"
      unfolding emits_def by blast
    then have "trace (snd (io_bind m f w)) = trace w @ (evs @ evs') \<and> list_all P (evs @ evs')"
      using mw Inr evs by (simp add: io_bind_def)
    then show ?thesis
      by blast
  qed
next
  fix w v
  assume res: "fst (io_bind m f w) = Inr v"
  obtain r w' where mw: "m w = (r, w')"
    by (cases "m w")
  show "R v"
  proof (cases r)
    case (Inl e)
    then show ?thesis
      using mw res by (simp add: io_bind_def)
  next
    case (Inr u)
    then have "Q u"
      using m mw unfolding emits_def by (metis fst_conv)
    then have "emits (f u) P R"
      by (rule f)
    moreover have "fst (f u w') = Inr v"
      using mw Inr res by (simp add: io_bind_def)
    ultimately show ?thesis
      unfolding emits_def by blast
  qed
qed

lemma emits_call:
  assumes "P ev" and "\<And>v. r = Inr v \<Longrightarrow> Q v"
  shows "emits (io_call ev r) P Q"
  unfolding io_call_def
  by (rule emits_bind [where Q = "\<lambda>_. True"]) (simp_all add: emits_emit emits_lift assms)

lemma emits_events:
  assumes "emits m P Q"
  shows "list_all P (new_events m w)"
proof -
  obtain evs where "trace (snd (m w)) = trace w @ evs" "list_all P evs"
    using assms unfolding emits_def by blast
  then show ?thesis
    by (simp add: new_events_def)
qed

lemma emits_bindT:
  assumes "emits m P (\<lambda>_. True)" and "\<And>v. emits (f v) P R"
  shows "emits (io_bind m f) P R"
  using assms(1) by (rule emits_bind) (rule assms(2))

lemma load_emits:
  assumes "P (LibrosaLoad file_path (Some target_sr) True)"
  shows "emits (load_and_preprocess_audio L file_path target_sr) P
           (\<lambda>(y, r). \<exists>y0. librosa_load L file_path (Some target_sr) True = Inr (y0, r) \<and>
                           y = astype y0 Float64)"
  unfolding load_and_preprocess_audio_def
proof (rule emits_bind [where Q = "\<lambda>v. librosa_load L file_path (Some target_sr) True = Inr v"])
  show "emits (io_call (LibrosaLoad file_path (Some target_sr) True)
                 (librosa_load L file_path (Some target_sr) True)) P
          (\<lambda>v. librosa_load L file_path (Some target_sr) True = Inr v)"
    using assms by (rule emits_call)
next
  fix v :: "ndarray \<times> nat"
  assume "librosa_load L file_path (Some target_sr) True = Inr v"
  then show "emits (case v of (y, sr) \<Rightarrow> io_return (astype y Float64, sr)) P
          (\<lambda>(y, r). \<exists>y0. librosa_load L file_path (Some target_sr) True = Inr (y0, r) \<and>
                           y = astype y0 Float64)"
    by (cases v) (simp add: emits_return)
qed

lemma analyze_emits:
  assumes "P (PwDio sr frame_period)" "P (PwStonemask sr)" "P (PwCheaptrick sr)" "P (PwD4c sr)"
  shows "emits (analyze_speech L y sr frame_period) P (\<lambda>_. True)"
  unfolding analyze_speech_def split_def
  by (intro emits_bindT emits_call emits_return assms TrueI)

lemma synthesize_emits:
  assumes "P (PwSynthesize f0 sr frame_period)"
  shows "emits (synthesize_speech L f0 sp ap sr frame_period) P (\<lambda>_. True)"
  unfolding synthesize_speech_def
  by (intro emits_bindT emits_call emits_return assms TrueI)

lemma plot_emits:
  assumes "P (PltFigure 12 6)"
    and "\<And>ys label. P (PltPlot (time_axis (length ys) frame_period) (masked_where_zero ys) label)"
    and "\<And>s. P (PltTitle s)" "\<And>s. P (PltXlabel s)" "\<And>s. P (PltYlabel s)"
    and "P PltLegend" "P (PltGrid True)" "P (PltSavefig save_path)" "P PltClose"
    and "\<And>s. P (Print s)"
  shows "emits (plot_f0_contours L f0_emo f0_neu f0_conv sr frame_period save_path) P (\<lambda>_. True)"
  unfolding plot_f0_contours_def Let_def
  by (intro emits_bindT emits_call emits_emit emits_read emits_return assms TrueI)


lemma emits_if:
  assumes "c \<Longrightarrow> emits a P Q" and "\<not> c \<Longrightarrow> emits b P Q"
  shows "emits (if c then a else b) P Q"
  using assms by simp

lemma emits_case_option:
  assumes "x = None \<Longrightarrow> emits a P Q" and "\<And>y. x = Some y \<Longrightarrow> emits (f y) P Q"
  shows "emits (case x of None \<Rightarrow> a | Some y \<Rightarrow> f y) P Q"
  using assms by (cases x) simp_all

lemma main_emits:
  assumes print: "\<And>s. P (Print s)"
    and load: "\<And>path. P (LibrosaLoad path (Some default_target_sr) True)"
    and analysis: "\<And>sr. P (PwDio sr 5)" "\<And>sr. P (PwStonemask sr)"
      "\<And>sr. P (PwCheaptrick sr)" "\<And>sr. P (PwD4c sr)"
    and synthesis: "\<And>f0 sr. P (PwSynthesize f0 sr 5)"
    and writing: "\<And>y sr. P (SfWrite output_file y sr)"
    and plotting: "P (PltFigure 12 6)"
      "\<And>ys label. P (PltPlot (time_axis (length ys) 5) (masked_where_zero ys) label)"
      "\<And>s. P (PltTitle s)" "\<And>s. P (PltXlabel s)" "\<And>s. P (PltYlabel s)"
      "P PltLegend" "P (PltGrid True)" "\<And>path. P (PltSavefig path)" "P PltClose"
    and raising: "rates_differ L emotional_file neutral_file \<Longrightarrow> P (Raise rate_error)"
  shows "emits (main L emotional_file neutral_file output_file plot_file) P (\<lambda>_. True)"
  unfolding main_def split_def Let_def
proof (intro emits_bind [OF load_emits] emits_bindT emits_if emits_case_option
         emits_raise emits_emit emits_call emits_lift emits_new emits_return
         analyze_emits synthesize_emits plot_emits
         print load analysis synthesis writing plotting TrueI)
  fix v_emo v_neu :: "ndarray \<times> nat"
  assume "case v_emo of (y, r) \<Rightarrow>
            \<exists>y0. librosa_load L emotional_file (Some default_target_sr) True = Inr (y0, r) \<and>
                 y = astype y0 Float64"
    and "case v_neu of (y, r) \<Rightarrow>
            \<exists>y0. librosa_load L neutral_file (Some default_target_sr) True = Inr (y0, r) \<and>
                 y = astype y0 Float64"
    and "snd v_emo \<noteq> snd v_neu"
  then have "rates_differ L emotional_file neutral_file"
    by (auto simp: rates_differ_def split_def)
  then show "P (Raise rate_error)"
    by (rule raising)
qed

text \<open>Running the script: the definitions to unfold, and what a load returns.\<close>

lemmas io_defs = io_bind_def io_return_def io_lift_def io_emit_def io_call_def io_raise_def
  io_new_def io_read_def

lemma load_run_Inr:
  "librosa_load L file_path (Some target_sr) True = Inr (y, sr) \<Longrightarrow>
   load_and_preprocess_audio L file_path target_sr w =
     (Inr (astype y Float64, sr), w\<lparr>trace := trace w @ [LibrosaLoad file_path (Some target_sr) True]\<rparr>)"
  by (simp add: load_and_preprocess_audio_def io_defs)

lemma main_mismatch_run:
  assumes "librosa_load L emotional_file (Some 22050) True = Inr (y_emo, sr_emo)"
    and "librosa_load L neutral_file (Some 22050) True = Inr (y_neu, sr_neu)"
    and "sr_emo \<noteq> sr_neu"
  shows "main L emotional_file neutral_file output_file plot_file w =
           (Inl rate_error,
            w\<lparr>trace := trace w @
               [Print ''Loading and preprocessing audio files...'',
                LibrosaLoad emotional_file (Some 22050) True,
                LibrosaLoad neutral_file (Some 22050) True,
                Raise rate_error]\<rparr>)"
  using assms
  by (simp add: main_def default_target_sr_def load_run_Inr io_bind_def io_emit_def io_raise_def)

lemma rates_differ_iff:
  "rates_differ L emotional_file neutral_file \<longleftrightarrow>
     (\<exists>y_emo sr_emo y_neu sr_neu.
        librosa_load L emotional_file (Some 22050) True = Inr (y_emo, sr_emo) \<and>
        librosa_load L neutral_file (Some 22050) True = Inr (y_neu, sr_neu) \<and>
        sr_emo \<noteq> sr_neu)"
  by (auto simp: rates_differ_def default_target_sr_def split: sum.splits)

lemma main_raises_only_rate_error:
  "list_all (\<lambda>ev. \<forall>e. ev = Raise e \<longrightarrow> e = rate_error \<and> rates_differ L emotional_file neutral_file)
     (new_events (main L emotional_file neutral_file output_file plot_file) w)"
  by (rule emits_events [where Q = "\<lambda>_. True"], rule main_emits) simp_all

lemma load_result:
  "load_and_preprocess_audio L file_path target_sr w =
     (case librosa_load L file_path (Some target_sr) True of
        Inl e \<Rightarrow> Inl e
      | Inr (y, sr) \<Rightarrow> Inr (astype y Float64, sr),
      w\<lparr>trace := trace w @ [LibrosaLoad file_path (Some target_sr) True]\<rparr>)"
  by (simp add: load_and_preprocess_audio_def io_defs split: sum.splits)



text \<open>The plotter and the store.\<close>

lemma keeps_heap_return: "keeps_heap (io_return v)"
  by (simp add: keeps_heap_def io_return_def)

lemma keeps_heap_lift: "keeps_heap (io_lift r)"
  by (simp add: keeps_heap_def io_lift_def)

lemma keeps_heap_emit: "keeps_heap (io_emit ev)"
  by (simp add: keeps_heap_def io_emit_def)

lemma keeps_heap_read: "keeps_heap (io_read r)"
  by (simp add: keeps_heap_def io_read_def)

lemma keeps_heap_bind:
  assumes "keeps_heap m" and "\<And>v. keeps_heap (f v)"
  shows "keeps_heap (io_bind m f)"
  unfolding keeps_heap_def
proof
  fix w
  obtain r w' where mw: "m w = (r, w')"
    by (cases "m w")
  have w': "heap w' = heap w"
    using assms(1) mw unfolding keeps_heap_def by (metis snd_conv)
  show "heap (snd (io_bind m f w)) = heap w"
  proof (cases r)
    case (Inl e)
    then show ?thesis
      using mw w' by (simp add: io_bind_def)
  next
    case (Inr v)
    have "heap (snd (f v w')) = heap w'"
      using assms(2) [of v] unfolding keeps_heap_def by blast
    then show ?thesis
      using mw Inr w' by (simp add: io_bind_def)
  qed
qed

lemma keeps_heap_call: "keeps_heap (io_call ev r)"
  unfolding io_call_def by (intro keeps_heap_bind keeps_heap_emit keeps_heap_lift)

lemma plot_keeps_heap:
  "keeps_heap (plot_f0_contours L f0_emo f0_neu f0_conv sr frame_period save_path)"
  unfolding plot_f0_contours_def Let_def
  by (intro keeps_heap_bind keeps_heap_emit keeps_heap_read keeps_heap_call)

lemma audio_writes_append: "audio_writes (xs @ ys) = audio_writes xs @ audio_writes ys"
  by (induction xs rule: audio_writes.induct) simp_all

lemma audio_writes_none: "list_all (\<lambda>ev. \<not> is_audio_write ev) evs \<Longrightarrow> audio_writes evs = []"
  by (induction evs rule: audio_writes.induct) simp_all

lemma plot_no_audio_write:
  "emits (plot_f0_contours L f0_emo f0_neu f0_conv sr frame_period save_path)
     (\<lambda>ev. \<not> is_audio_write ev) (\<lambda>_. True)"
  by (rule plot_emits) simp_all

lemma sample_libs_rate_contract: "librosa_rate_contract sample_libs"
  by (simp add: librosa_rate_contract_def sample_libs_def)

section \<open>The claims about prosody transfer\<close>

text \<open>
  Claim C1. For a source contour of length \<open>L > 0\<close> and a target envelope of \<open>N\<close> frames,
  \<open>transfer_prosody\<close> returns an aligned contour whose element \<open>i\<close>, for every \<open>i < N\<close>, is
  element \<open>i mod L\<close> of the source: the source is repeated cyclically when it is shorter
  than \<open>N\<close> and cut to its first \<open>N\<close> values when it is longer.
\<close>

theorem transfer_prosody_cyclic:
  assumes "f0_source \<noteq> []"
  shows "\<exists>f0_aligned.
           transfer_prosody f0_source sp_target ap_target = Inr (f0_aligned, sp_target, ap_target) \<and>
           length f0_aligned = length sp_target \<and>
           (\<forall>i < length sp_target. f0_aligned ! i = f0_source ! (i mod length f0_source)) \<and>
           (length sp_target \<le> length f0_source \<longrightarrow> f0_aligned = take (length sp_target) f0_source)"
proof -
  obtain ys where ys: "np_resize f0_source (int (length sp_target)) = Inr ys"
    using np_resize_total [of f0_source "length sp_target"] by (elim exE)
  have tp: "transfer_prosody f0_source sp_target ap_target = Inr (ys, sp_target, ap_target)"
    using ys by (rule transfer_prosody_Inr)
  have len: "length ys = length sp_target"
    using ys by (rule np_resize_length)
  have nth: "ys ! i = f0_source ! (i mod length f0_source)" if "i < length sp_target" for i
    using assms ys that by (rule np_resize_nth)
  have trunc: "ys = take (length sp_target) f0_source" if le: "length sp_target \<le> length f0_source"
  proof (rule nth_equalityI)
    show "length ys = length (take (length sp_target) f0_source)"
      using le len by simp
  next
    fix i assume "i < length ys"
    then have i: "i < length sp_target" using len by simp
    then have "i mod length f0_source = i"
      using le by simp
    with nth [OF i] i show "ys ! i = take (length sp_target) f0_source ! i"
      by simp
  qed
  show ?thesis
  proof (intro exI [of _ ys] conjI allI impI)
    show "transfer_prosody f0_source sp_target ap_target = Inr (ys, sp_target, ap_target)"
      by (rule tp)
    show "length ys = length sp_target"
      by (rule len)
    show "ys ! i = f0_source ! (i mod length f0_source)" if "i < length sp_target" for i
      using that by (rule nth)
    show "ys = take (length sp_target) f0_source" if "length sp_target \<le> length f0_source"
      using that by (rule trunc)
  qed
qed

theorem transfer_prosody_cyclic_witness:
  "[110, 220, 330 :: real] \<noteq> [] \<and>
   transfer_prosody [110, 220, 330 :: real] [[1], [2], [3], [4], [5 :: real]] ''ap'' =
     Inr ([110, 220, 330, 110, 220], [[1], [2], [3], [4], [5]], ''ap'') \<and>
   4 < length [[1], [2], [3], [4], [5 :: real]] \<and>
   [110, 220, 330, 110, 220 :: real] ! 4 = [110, 220, 330] ! (4 mod length [110, 220, 330 :: real])"
proof -
  have ne: "[110, 220, 330 :: real] \<noteq> []"
    by simp
  have ev: "transfer_prosody [110, 220, 330 :: real] [[1], [2], [3], [4], [5 :: real]] ''ap'' =
              Inr ([110, 220, 330, 110, 220], [[1], [2], [3], [4], [5]], ''ap'')"
    by code_simp
  have lt: "4 < length [[1], [2], [3], [4], [5 :: real]]"
    by simp
  obtain f0_aligned where
    r: "transfer_prosody [110, 220, 330 :: real] [[1], [2], [3], [4], [5 :: real]] ''ap'' =
          Inr (f0_aligned, [[1], [2], [3], [4], [5]], ''ap'')" and
    n: "\<forall>i < length [[1], [2], [3], [4], [5 :: real]].
          f0_aligned ! i = [110, 220, 330] ! (i mod length [110, 220, 330 :: real])"
    using transfer_prosody_cyclic [OF ne, of "[[1], [2], [3], [4], [5 :: real]]" "''ap''"]
    by (elim exE conjE)
  from r have "f0_aligned = [110, 220, 330, 110, 220]"
    by (simp only: ev sum.inject prod.inject)
  with n lt have "[110, 220, 330, 110, 220 :: real] ! 4 =
      [110, 220, 330] ! (4 mod length [110, 220, 330 :: real])"
    by (simp only:)
  with ne ev lt show ?thesis
    by (intro conjI)
qed

text \<open>
  Claim C2. For every frame count \<open>N\<close> and every source contour, of any length \<open>L\<close>
  (smaller than, equal to or greater than \<open>N\<close>), the aligned contour has length exactly
  \<open>N\<close>.
\<close>

theorem transfer_prosody_length:
  "\<exists>f0_aligned.
     transfer_prosody f0_source sp_target ap_target = Inr (f0_aligned, sp_target, ap_target) \<and>
     length f0_aligned = length sp_target"
proof -
  obtain ys where ys: "np_resize f0_source (int (length sp_target)) = Inr ys"
    using np_resize_total [of f0_source "length sp_target"] by (elim exE)
  have "transfer_prosody f0_source sp_target ap_target = Inr (ys, sp_target, ap_target)"
    using ys by (rule transfer_prosody_Inr)
  moreover have "length ys = length sp_target"
    using ys by (rule np_resize_length)
  ultimately show ?thesis
    by simp
qed

text \<open>
  Claim C3. When \<open>L > 0\<close> divides \<open>N\<close>, the aligned contour is the source contour written
  out \<open>N div L\<close> times. The resizing is deterministic: the model is a function of its
  three arguments, so two runs on equal inputs give equal outputs.
\<close>

theorem transfer_prosody_repeat:
  assumes "f0_source \<noteq> []" and "length f0_source dvd length sp_target"
  shows "transfer_prosody f0_source sp_target ap_target =
           Inr (concat (replicate (length sp_target div length f0_source) f0_source),
                sp_target, ap_target) \<and>
         (\<forall>f0' sp' ap'. f0' = f0_source \<and> sp' = sp_target \<and> ap' = ap_target \<longrightarrow>
            transfer_prosody f0' sp' ap' = transfer_prosody f0_source sp_target ap_target)"
proof
  have "np_resize f0_source (int (length sp_target)) =
          Inr (concat (replicate (length sp_target div length f0_source) f0_source))"
    using assms by (rule np_resize_dvd)
  then show "transfer_prosody f0_source sp_target ap_target =
           Inr (concat (replicate (length sp_target div length f0_source) f0_source),
                sp_target, ap_target)"
    by (rule transfer_prosody_Inr)
next
  show "\<forall>f0' sp' ap'. f0' = f0_source \<and> sp' = sp_target \<and> ap' = ap_target \<longrightarrow>
            transfer_prosody f0' sp' ap' = transfer_prosody f0_source sp_target ap_target"
    by simp
qed

theorem transfer_prosody_repeat_witness:
  "[110, 0 :: real] \<noteq> [] \<and>
   length [110, 0 :: real] dvd length [''a'', ''b'', ''c'', ''d'', ''e'', ''f''] \<and>
   transfer_prosody [110, 0 :: real] [''a'', ''b'', ''c'', ''d'', ''e'', ''f''] () =
     Inr ([110, 0, 110, 0, 110, 0], [''a'', ''b'', ''c'', ''d'', ''e'', ''f''], ())"
proof -
  have ne: "[110, 0 :: real] \<noteq> []"
    by simp
  have dv: "length [110, 0 :: real] dvd length [''a'', ''b'', ''c'', ''d'', ''e'', ''f'']"
    by code_simp
  have rp: "concat (replicate (length [''a'', ''b'', ''c'', ''d'', ''e'', ''f''] div length [110, 0 :: real])
              [110, 0 :: real]) = [110, 0, 110, 0, 110, 0]"
    by code_simp
  have "transfer_prosody [110, 0 :: real] [''a'', ''b'', ''c'', ''d'', ''e'', ''f''] () =
     Inr (concat (replicate (length [''a'', ''b'', ''c'', ''d'', ''e'', ''f''] div length [110, 0 :: real])
              [110, 0 :: real]), [''a'', ''b'', ''c'', ''d'', ''e'', ''f''], ())"
    using transfer_prosody_repeat [OF ne dv, of "()"] by (elim conjE)
  then have "transfer_prosody [110, 0 :: real] [''a'', ''b'', ''c'', ''d'', ''e'', ''f''] () =
     Inr ([110, 0, 110, 0, 110, 0], [''a'', ''b'', ''c'', ''d'', ''e'', ''f''], ())"
    by (simp only: rp)
  with ne dv show ?thesis
    by (intro conjI)
qed

text \<open>
  Claim C4. For every input triple \<open>transfer_prosody\<close> returns the target envelope and
  aperiodicity it was given. The pitch values are not scaled or normalised: every value
  of the aligned contour is a value of the source contour (or the zero fill, when the
  source is empty).
\<close>

theorem transfer_prosody_passthrough:
  "\<exists>f0_aligned.
     transfer_prosody f0_source sp_target ap_target = Inr (f0_aligned, sp_target, ap_target) \<and>
     (f0_source \<noteq> [] \<longrightarrow> set f0_aligned \<subseteq> set f0_source) \<and>
     (f0_source = [] \<longrightarrow> set f0_aligned \<subseteq> {0})"
proof -
  obtain ys where ys: "np_resize f0_source (int (length sp_target)) = Inr ys"
    using np_resize_total [of f0_source "length sp_target"] by (elim exE)
  have tp: "transfer_prosody f0_source sp_target ap_target = Inr (ys, sp_target, ap_target)"
    using ys by (rule transfer_prosody_Inr)
  have len: "length ys = length sp_target"
    using ys by (rule np_resize_length)
  have sub: "set ys \<subseteq> set f0_source" if ne: "f0_source \<noteq> []"
  proof
    fix x assume "x \<in> set ys"
    then obtain i where i: "i < length ys" and x: "x = ys ! i"
      by (auto simp: in_set_conv_nth)
    have "i < length sp_target"
      using i len by simp
    with ne ys have "ys ! i = f0_source ! (i mod length f0_source)"
      by (rule np_resize_nth)
    moreover have "i mod length f0_source < length f0_source"
      using ne by simp
    ultimately show "x \<in> set f0_source"
      using x by simp
  qed
  have zero: "set ys \<subseteq> {0}" if "f0_source = []"
    using ys that by (auto simp: np_resize_empty)
  show ?thesis
  proof (intro exI [of _ ys] conjI impI)
    show "transfer_prosody f0_source sp_target ap_target = Inr (ys, sp_target, ap_target)"
      by (rule tp)
    show "set ys \<subseteq> set f0_source" if "f0_source \<noteq> []"
      using that by (rule sub)
    show "set ys \<subseteq> {0}" if "f0_source = []"
      using that by (rule zero)
  qed
qed

theorem transfer_prosody_passthrough_witness:
  "transfer_prosody [110, 220 :: real] [[1 :: real], [2], [3]] [[7 :: real], [8], [9]] =
     Inr ([110, 220, 110], [[1], [2], [3]], [[7], [8], [9]]) \<and>
   set [110, 220, 110 :: real] \<subseteq> set [110, 220]"
proof -
  have ev: "transfer_prosody [110, 220 :: real] [[1 :: real], [2], [3]] [[7 :: real], [8], [9]] =
     Inr ([110, 220, 110], [[1], [2], [3]], [[7], [8], [9]])"
    by code_simp
  have ne: "[110, 220 :: real] \<noteq> []"
    by simp
  obtain f0_aligned where
    r: "transfer_prosody [110, 220 :: real] [[1 :: real], [2], [3]] [[7 :: real], [8], [9]] =
          Inr (f0_aligned, [[1], [2], [3]], [[7], [8], [9]])" and
    s: "[110, 220 :: real] \<noteq> [] \<longrightarrow> set f0_aligned \<subseteq> set [110, 220 :: real]"
    using transfer_prosody_passthrough
            [of "[110, 220 :: real]" "[[1 :: real], [2], [3]]" "[[7 :: real], [8], [9]]"]
    by (elim exE conjE)
  from r have "f0_aligned = [110, 220, 110]"
    by (simp only: ev sum.inject prod.inject)
  with s ne have "set [110, 220, 110 :: real] \<subseteq> set [110, 220]"
    by (simp only: simp_thms)
  with ev show ?thesis
    by (intro conjI)
qed

text \<open>
  Claim C9. With an empty source contour \<open>transfer_prosody\<close> does not fail: it returns
  \<open>N\<close> zeros, for every frame count \<open>N\<close> and so for every positive one.
\<close>

theorem transfer_prosody_empty_source:
  "transfer_prosody [] sp_target ap_target = Inr (replicate (length sp_target) 0, sp_target, ap_target)"
  by (simp add: transfer_prosody_Inr np_resize_empty)

section \<open>The claims about the pipeline\<close>

text \<open>
  Claim C5. If the two sample rates that the loader reports differ, \<open>main\<close> raises the
  \<^verbatim>\<open>ValueError\<close> with its message straight after the two loads: the run consists of the
  first print, the two loads and the raise, so no analysis, synthesis, writing or
  plotting happens. That check is the only validation of \<open>main\<close>: whenever a run
  executes a \<^verbatim>\<open>raise\<close> statement of the script, it is this one, and the rates differed.
\<close>

theorem main_rate_mismatch:
  "(librosa_load L emotional_file (Some 22050) True = Inr (y_emo, sr_emo) \<and>
    librosa_load L neutral_file (Some 22050) True = Inr (y_neu, sr_neu) \<and>
    sr_emo \<noteq> sr_neu \<longrightarrow>
      main L emotional_file neutral_file output_file plot_file w =
        (Inl rate_error,
         w\<lparr>trace := trace w @
            [Print ''Loading and preprocessing audio files...'',
             LibrosaLoad emotional_file (Some 22050) True,
             LibrosaLoad neutral_file (Some 22050) True,
             Raise rate_error]\<rparr>)) \<and>
   (Raise e \<in> set (new_events (main L emotional_file neutral_file output_file plot_file) w) \<longrightarrow>
      e = rate_error \<and> rates_differ L emotional_file neutral_file)"
proof (intro conjI impI)
  assume "librosa_load L emotional_file (Some 22050) True = Inr (y_emo, sr_emo) \<and>
    librosa_load L neutral_file (Some 22050) True = Inr (y_neu, sr_neu) \<and>
    sr_emo \<noteq> sr_neu"
  then show "main L emotional_file neutral_file output_file plot_file w =
        (Inl rate_error,
         w\<lparr>trace := trace w @
            [Print ''Loading and preprocessing audio files...'',
             LibrosaLoad emotional_file (Some 22050) True,
             LibrosaLoad neutral_file (Some 22050) True,
             Raise rate_error]\<rparr>)"
    by (elim conjE) (rule main_mismatch_run)
next
  assume r: "Raise e \<in> set (new_events (main L emotional_file neutral_file output_file plot_file) w)"
  with main_raises_only_rate_error [of L emotional_file neutral_file output_file plot_file w]
  have "e = rate_error \<and> rates_differ L emotional_file neutral_file"
    by (auto simp: list_all_iff)
  then show "e = rate_error" and "rates_differ L emotional_file neutral_file"
    by simp_all
qed

theorem main_rate_mismatch_witness:
  "librosa_load native_rate_libs ''emotion.wav'' (Some 22050) True = Inr (sample_wave, 16000) \<and>
   librosa_load native_rate_libs ''neutral.wav'' (Some 22050) True = Inr (sample_wave, 22050) \<and>
   (16000 :: nat) \<noteq> 22050 \<and>
   main native_rate_libs ''emotion.wav'' ''neutral.wav'' ''converted.wav''
       (Some ''f0_comparison.png'') init_world =
     (Inl (ValueError ''Sampling rates of the two files must be the same.''),
      init_world\<lparr>trace :=
         [Print ''Loading and preprocessing audio files...'',
          LibrosaLoad ''emotion.wav'' (Some 22050) True,
          LibrosaLoad ''neutral.wav'' (Some 22050) True,
          Raise (ValueError ''Sampling rates of the two files must be the same.'')]\<rparr>) \<and>
   Raise rate_error \<in> set (new_events (main native_rate_libs ''emotion.wav'' ''neutral.wav''
       ''converted.wav'' (Some ''f0_comparison.png'')) init_world) \<and>
   rates_differ native_rate_libs ''emotion.wav'' ''neutral.wav''"
proof -
  have emo: "librosa_load native_rate_libs ''emotion.wav'' (Some 22050) True = Inr (sample_wave, 16000)"
    by (simp add: native_rate_libs_def)
  have neu: "librosa_load native_rate_libs ''neutral.wav'' (Some 22050) True = Inr (sample_wave, 22050)"
    by (simp add: native_rate_libs_def)
  have ne: "(16000 :: nat) \<noteq> 22050"
    by simp
  have run: "main native_rate_libs ''emotion.wav'' ''neutral.wav'' ''converted.wav''
       (Some ''f0_comparison.png'') init_world =
        (Inl rate_error,
         init_world\<lparr>trace := trace init_world @
            [Print ''Loading and preprocessing audio files...'',
             LibrosaLoad ''emotion.wav'' (Some 22050) True,
             LibrosaLoad ''neutral.wav'' (Some 22050) True,
             Raise rate_error]\<rparr>)"
    by (rule main_rate_mismatch [THEN conjunct1, THEN mp])
       (rule conjI, rule emo, rule conjI, rule neu, rule ne)
  then have result: "main native_rate_libs ''emotion.wav'' ''neutral.wav'' ''converted.wav''
       (Some ''f0_comparison.png'') init_world =
     (Inl (ValueError ''Sampling rates of the two files must be the same.''),
      init_world\<lparr>trace :=
         [Print ''Loading and preprocessing audio files...'',
          LibrosaLoad ''emotion.wav'' (Some 22050) True,
          LibrosaLoad ''neutral.wav'' (Some 22050) True,
          Raise (ValueError ''Sampling rates of the two files must be the same.'')]\<rparr>)"
    by (simp add: rate_error_def init_world_def)
  have raised: "Raise rate_error \<in> set (new_events (main native_rate_libs ''emotion.wav'' ''neutral.wav''
       ''converted.wav'' (Some ''f0_comparison.png'')) init_world)"
    unfolding new_events_def run by (simp add: init_world_def)
  have "rates_differ native_rate_libs ''emotion.wav'' ''neutral.wav''"
    using main_rate_mismatch [THEN conjunct2, THEN mp, OF raised] by (elim conjE)
  with emo neu ne result raised show ?thesis
    by (intro conjI)
qed




text \<open>
  Claim C7. \<open>plot_f0_contours\<close> leaves every array of the store as it was, the three
  contours it is given among them, whether or not they are aliases of each other; and it
  writes no audio: the audio files written before the call are those written after it.
\<close>

theorem plot_f0_contours_frame:
  "heap (snd (plot_f0_contours L f0_emo f0_neu f0_conv sr frame_period save_path w)) = heap w \<and>
   audio_writes (trace (snd (plot_f0_contours L f0_emo f0_neu f0_conv sr frame_period save_path w))) =
     audio_writes (trace w)"
proof
  show "heap (snd (plot_f0_contours L f0_emo f0_neu f0_conv sr frame_period save_path w)) = heap w"
    using plot_keeps_heap [of L f0_emo f0_neu f0_conv sr frame_period save_path]
    unfolding keeps_heap_def by blast
next
  obtain evs where
    "trace (snd (plot_f0_contours L f0_emo f0_neu f0_conv sr frame_period save_path w)) = trace w @ evs"
    and "list_all (\<lambda>ev. \<not> is_audio_write ev) evs"
    using plot_no_audio_write [of L f0_emo f0_neu f0_conv sr frame_period save_path]
    unfolding emits_def by blast
  then show "audio_writes (trace (snd (plot_f0_contours L f0_emo f0_neu f0_conv sr frame_period save_path w))) =
     audio_writes (trace w)"
    by (simp add: audio_writes_append audio_writes_none)
qed

theorem plot_f0_contours_frame_witness:
  "heap (snd (plot_f0_contours sample_libs 0 1 0 22050 5 ''f0_comparison.png''
            (init_world\<lparr>heap := (\<lambda>r. if r = 0 then [110, 0, 120] else [100, 0])\<rparr>))) 0 = [110, 0, 120] \<and>
   heap (snd (plot_f0_contours sample_libs 0 1 0 22050 5 ''f0_comparison.png''
            (init_world\<lparr>heap := (\<lambda>r. if r = 0 then [110, 0, 120] else [100, 0])\<rparr>))) 1 = [100, 0]"
  using plot_f0_contours_frame [of sample_libs 0 1 0 22050 5 "''f0_comparison.png''"
          "init_world\<lparr>heap := (\<lambda>r. if r = 0 then [110, 0, 120] else [100, 0])\<rparr>"]
  by simp

text \<open>
  Claim C8. In every run of \<open>main\<close> each load asks for 22050 Hz, and each analysis, the
  synthesis and the time axis of each plotted line use a frame period of 5 ms.
\<close>

theorem main_fixed_parameters:
  "list_all fixed_parameters
     (new_events (main L emotional_file neutral_file output_file plot_file) w)"
  by (rule emits_events [where Q = "\<lambda>_. True"], rule main_emits)
     (simp_all add: default_target_sr_def masked_where_zero_def)

theorem main_fixed_parameters_witness:
  "list_all fixed_parameters
     (new_events (main sample_libs ''emotion.wav'' ''neutral.wav'' ''converted.wav''
        (Some ''f0_comparison.png'')) init_world) \<and>
   new_events (main sample_libs ''emotion.wav'' ''neutral.wav'' ''converted.wav''
        (Some ''f0_comparison.png'')) init_world =
     [Print ''Loading and preprocessing audio files...'',
      LibrosaLoad ''emotion.wav'' (Some 22050) True,
      LibrosaLoad ''neutral.wav'' (Some 22050) True,
      Print ''Analyzing speech signals using WORLD vocoder...'',
      PwDio 22050 5, PwStonemask 22050, PwCheaptrick 22050, PwD4c 22050,
      PwDio 22050 5, PwStonemask 22050, PwCheaptrick 22050, PwD4c 22050,
      Print ''Transferring prosody...'',
      Print ''Synthesizing converted speech...'',
      PwSynthesize [110, 0, 120] 22050 5,
      Print ''Saving converted audio to converted.wav...'',
      SfWrite ''converted.wav'' [11 / 100, 0, 3 / 25] 22050,
      Print ''Generating F0 contour plot for validation...'',
      PltFigure 12 6,
      PltPlot [0, 1 / 200, 1 / 100] [Some 110, None, Some 120] ''Original Neutral F0'',
      PltPlot [0, 1 / 200, 1 / 100] [Some 110, None, Some 120] ''Original Emotional F0'',
      PltPlot [0, 1 / 200, 1 / 100] [Some 110, None, Some 120] ''Converted F0'',
      PltTitle ''Fundamental Frequency ($F_0$) Contour Comparison'',
      PltXlabel ''Time (s)'', PltYlabel ''Frequency (Hz)'', PltLegend, PltGrid True,
      PltSavefig ''f0_comparison.png'', PltClose,
      Print ''F0 plot saved to f0_comparison.png'',
      Print ''Process completed successfully.'']"
proof
  show "list_all fixed_parameters
     (new_events (main sample_libs ''emotion.wav'' ''neutral.wav'' ''converted.wav''
        (Some ''f0_comparison.png'')) init_world)"
    by (rule main_fixed_parameters)
next
  show "new_events (main sample_libs ''emotion.wav'' ''neutral.wav'' ''converted.wav''
        (Some ''f0_comparison.png'')) init_world =
     [Print ''Loading and preprocessing audio files...'',
      LibrosaLoad ''emotion.wav'' (Some 22050) True,
      LibrosaLoad ''neutral.wav'' (Some 22050) True,
      Print ''Analyzing speech signals using WORLD vocoder...'',
      PwDio 22050 5, PwStonemask 22050, PwCheaptrick 22050, PwD4c 22050,
      PwDio 22050 5, PwStonemask 22050, PwCheaptrick 22050, PwD4c 22050,
      Print ''Transferring prosody...'',
      Print ''Synthesizing converted speech...'',
      PwSynthesize [110, 0, 120] 22050 5,
      Print ''Saving converted audio to converted.wav...'',
      SfWrite ''converted.wav'' [11 / 100, 0, 3 / 25] 22050,
      Print ''Generating F0 contour plot for validation...'',
      PltFigure 12 6,
      PltPlot [0, 1 / 200, 1 / 100] [Some 110, None, Some 120] ''Original Neutral F0'',
      PltPlot [0, 1 / 200, 1 / 100] [Some 110, None, Some 120] ''Original Emotional F0'',
      PltPlot [0, 1 / 200, 1 / 100] [Some 110, None, Some 120] ''Converted F0'',
      PltTitle ''Fundamental Frequency ($F_0$) Contour Comparison'',
      PltXlabel ''Time (s)'', PltYlabel ''Frequency (Hz)'', PltLegend, PltGrid True,
      PltSavefig ''f0_comparison.png'', PltClose,
      Print ''F0 plot saved to f0_comparison.png'',
      Print ''Process completed successfully.'']"
    by (simp add: new_events_def main_def load_and_preprocess_audio_def analyze_speech_def
          synthesize_speech_def transfer_prosody_def np_resize_def plot_f0_contours_def
          time_axis_def masked_where_zero_def upt_conv_Cons
          io_defs sample_libs_def default_target_sr_def init_world_def Let_def)
qed

text \<open>
  Claim C10. When librosa returns the rate it was asked for, two successful loads report
  the same rate, 22050 Hz, so the rates never differ and no run of \<open>main\<close> executes the
  \<^verbatim>\<open>raise\<close> of the sample-rate check.
\<close>

theorem main_rate_check_unreachable:
  assumes "librosa_rate_contract L"
  shows "(fst (load_and_preprocess_audio L emotional_file default_target_sr w1) = Inr (y_emo, sr_emo) \<and>
          fst (load_and_preprocess_audio L neutral_file default_target_sr w2) = Inr (y_neu, sr_neu) \<longrightarrow>
            sr_emo = sr_neu \<and> sr_emo = 22050) \<and>
         \<not> rates_differ L emotional_file neutral_file \<and>
         Raise e \<notin> set (new_events (main L emotional_file neutral_file output_file plot_file) w)"
proof -
  have rate: "sr = default_target_sr"
    if loaded: "fst (load_and_preprocess_audio L file_path default_target_sr w') = Inr (y, sr)"
    for file_path w' y sr
  proof -
    obtain y0 where "librosa_load L file_path (Some default_target_sr) True = Inr (y0, sr)"
      using loaded by (auto simp: load_result split: sum.splits)
    then show ?thesis
      using assms unfolding librosa_rate_contract_def by blast
  qed
  have same: "\<not> rates_differ L emotional_file neutral_file"
  proof
    assume "rates_differ L emotional_file neutral_file"
    then obtain y1 r1 y2 r2 where
      "librosa_load L emotional_file (Some 22050) True = Inr (y1, r1)"
      "librosa_load L neutral_file (Some 22050) True = Inr (y2, r2)" "r1 \<noteq> r2"
      unfolding rates_differ_iff by blast
    moreover from this have "r1 = 22050" "r2 = 22050"
      using assms unfolding librosa_rate_contract_def by blast+
    ultimately show False
      by simp
  qed
  have "Raise e \<notin> set (new_events (main L emotional_file neutral_file output_file plot_file) w)"
  proof
    assume "Raise e \<in> set (new_events (main L emotional_file neutral_file output_file plot_file) w)"
    with main_raises_only_rate_error [of L emotional_file neutral_file output_file plot_file w]
    have "rates_differ L emotional_file neutral_file"
      by (auto simp: list_all_iff)
    with same show False ..
  qed
  moreover have "sr_emo = sr_neu \<and> sr_emo = 22050"
    if "fst (load_and_preprocess_audio L emotional_file default_target_sr w1) = Inr (y_emo, sr_emo) \<and>
        fst (load_and_preprocess_audio L neutral_file default_target_sr w2) = Inr (y_neu, sr_neu)"
    using rate [of emotional_file w1 y_emo sr_emo] rate [of neutral_file w2 y_neu sr_neu] that
    by (simp add: default_target_sr_def)
  ultimately show ?thesis
    using same by blast
qed

theorem main_rate_check_unreachable_witness:
  "librosa_rate_contract sample_libs \<and>
   fst (load_and_preprocess_audio sample_libs ''emotion.wav'' default_target_sr init_world) =
     Inr (\<lparr>dtype = Float64, shape = [4], samples = [0, 1 / 2, 0, - 1 / 2]\<rparr>, 22050) \<and>
   fst (load_and_preprocess_audio sample_libs ''neutral.wav'' default_target_sr init_world) =
     Inr (\<lparr>dtype = Float64, shape = [4], samples = [0, 1 / 2, 0, - 1 / 2]\<rparr>, 22050) \<and>
   \<not> rates_differ sample_libs ''emotion.wav'' ''neutral.wav'' \<and>
   Raise (ValueError ''Sampling rates of the two files must be the same.'') \<notin>
     set (new_events (main sample_libs ''emotion.wav'' ''neutral.wav'' ''converted.wav'' None) init_world)"
proof -
  have emo: "fst (load_and_preprocess_audio sample_libs ''emotion.wav'' default_target_sr init_world) =
     Inr (\<lparr>dtype = Float64, shape = [4], samples = [0, 1 / 2, 0, - 1 / 2]\<rparr>, 22050)"
    by (simp add: load_result sample_libs_def sample_wave_def astype_def default_target_sr_def)
  have neu: "fst (load_and_preprocess_audio sample_libs ''neutral.wav'' default_target_sr init_world) =
     Inr (\<lparr>dtype = Float64, shape = [4], samples = [0, 1 / 2, 0, - 1 / 2]\<rparr>, 22050)"
    by (simp add: load_result sample_libs_def sample_wave_def astype_def default_target_sr_def)
  have same: "\<not> rates_differ sample_libs ''emotion.wav'' ''neutral.wav''"
    by (rule main_rate_check_unreachable
              [OF sample_libs_rate_contract, THEN conjunct2, THEN conjunct1])
  have "Raise (ValueError ''Sampling rates of the two files must be the same.'') \<notin>
     set (new_events (main sample_libs ''emotion.wav'' ''neutral.wav'' ''converted.wav'' None) init_world)"
    by (rule main_rate_check_unreachable
              [OF sample_libs_rate_contract, THEN conjunct2, THEN conjunct2])
  with sample_libs_rate_contract emo neu same show ?thesis
    by (intro conjI)
qed

end
